theory Spec2Isabelle
  imports Main "HOL-Library.Log_Nat"
begin

section \<open>Python values, exceptions and floats\<close>

text \<open>
  The exceptions that the modelled code of \<^verbatim>\<open>game_graph.py\<close> can raise. An operation
  that mutates objects returns the exception (if any) together with the state reached
  when it was raised.
\<close>

datatype error = AttributeError | KeyError | TypeError | ZeroDivisionError | AssertionError

text \<open>
  The elements of \<^verbatim>\<open>user_game_ids\<close> are declared \<^verbatim>\<open>int\<close>, but \<^verbatim>\<open>add_game\<close> tests a
  string for membership in that list, so the list holds dynamically typed values.
  Python's \<^verbatim>\<open>==\<close> between a \<^verbatim>\<open>str\<close> and an \<^verbatim>\<open>int\<close> is \<^verbatim>\<open>False\<close>, as is equality of
  the two constructors.
\<close>

datatype pyval = PyInt int | PyStr string

text \<open>
  A Python \<^verbatim>\<open>float\<close> is an IEEE 754 double. The model keeps the rational value of the
  double and rounds the exact result of every operation to the nearest number with a
  53-bit significand, ties to even. The exponent is unbounded in the model (no overflow,
  no subnormals); infinities and NaN do not arise because Python raises on a division by
  zero.
\<close>

type_synonym float = rat

definition pow2 :: "int \<Rightarrow> rat" where
  "pow2 k = (if 0 \<le> k then 2 ^ nat k else 1 / 2 ^ nat (- k))"

definition round_half_even :: "rat \<Rightarrow> int" where
  "round_half_even s =
     (let f = \<lfloor>s\<rfloor>; r = s - of_int f
      in if r < 1 / 2 then f else if 1 / 2 < r then f + 1 else if even f then f else f + 1)"

text \<open>The exponent \<open>e\<close> with \<open>2 ^ e \<le> a < 2 ^ (e + 1)\<close>, for \<open>a > 0\<close>.\<close>

definition binade :: "rat \<Rightarrow> int" where
  "binade a =
     (let (n, d) = quotient_of a; e = bitlen n - bitlen d
      in if pow2 e \<le> a then e else e - 1)"

definition fl_round :: "rat \<Rightarrow> float" where
  "fl_round q =
     (if q = 0 then 0
      else let a = \<bar>q\<bar>; e = binade a; m = round_half_even (a * pow2 (52 - e))
           in sgn q * of_int m * pow2 (e - 52))"

definition fl_add :: "float \<Rightarrow> float \<Rightarrow> float" where
  "fl_add a b = fl_round (a + b)"

definition fl_sub :: "float \<Rightarrow> float \<Rightarrow> float" where
  "fl_sub a b = fl_round (a - b)"

definition fl_mul :: "float \<Rightarrow> float \<Rightarrow> float" where
  "fl_mul a b = fl_round (a * b)"

text \<open>Python's \<^verbatim>\<open>/\<close> (true division, on ints as well as floats).\<close>

definition py_truediv :: "rat \<Rightarrow> rat \<Rightarrow> error + float" where
  "py_truediv a b = (if b = 0 then Inl ZeroDivisionError else Inr (fl_round (a / b)))"

text \<open>
  \<^verbatim>\<open>str.lower\<close> on ASCII letters. Python lowercases every cased Unicode letter; names
  and owned entries with letters outside ASCII are outside the model, and nothing below
  depends on the outcome of the name test for them.
\<close>

definition lower_char :: "char \<Rightarrow> char" where
  "lower_char c =
     (let n = (of_char c :: nat) in if 65 \<le> n \<and> n \<le> 90 then char_of (n + 32) else c)"

definition lower :: "string \<Rightarrow> string" where
  "lower s = map lower_char s"

section \<open>Objects\<close>

text \<open>
  \<^verbatim>\<open>Game\<close> and \<^verbatim>\<open>GameNode\<close> objects are shared and mutated in place (a node is
  referenced from \<^verbatim>\<open>_nodes\<close>, from \<^verbatim>\<open>_user_nodes\<close> and from neighbour lists; a game's
  \<^verbatim>\<open>rating\<close> is assigned by the scoring pass), so they live in a store and are referred
  to by address.
\<close>

type_synonym gref = nat
type_synonym nref = nat

text \<open>
  \<^verbatim>\<open>Game.__init__\<close> assigns every attribute except \<^verbatim>\<open>rating\<close>: reading \<^verbatim>\<open>rating\<close>
  before it has been assigned raises \<^verbatim>\<open>AttributeError\<close>. \<open>None\<close> stands for the
  attribute that has not been assigned.
\<close>

record Game =
  name :: string
  game_id :: int
  genres :: "string list"
  price :: float
  positive_ratio :: int
  rating :: "float option"

definition Game_init :: "int \<times> string \<Rightarrow> string list \<Rightarrow> float \<Rightarrow> int \<Rightarrow> Game" where
  "Game_init game_info gs p ratio =
     \<lparr>name = snd game_info, game_id = fst game_info, genres = gs, price = p,
      positive_ratio = ratio, rating = None\<rparr>"

text \<open>
  \<^verbatim>\<open>genre_count\<close> builds \<^verbatim>\<open>list_so_far\<close> and then returns \<^verbatim>\<open>len(list)\<close>. No variable
  is called \<^verbatim>\<open>list\<close>, so the name is the builtin type, and \<^verbatim>\<open>len\<close> of a type raises
  \<^verbatim>\<open>TypeError\<close>.
\<close>

definition genre_count :: "Game \<Rightarrow> string list \<Rightarrow> error + int" where
  "genre_count self genre_collection =
     (let lowered_list = map lower genre_collection;
          list_so_far = filter (\<lambda>genre. lower genre \<in> set lowered_list) (genres self)
      in Inl TypeError)"

record GameNode =
  game :: gref
  neighbours :: "nref list"

record heap =
  games :: "gref \<Rightarrow> Game"
  gnodes :: "nref \<Rightarrow> GameNode"
  next_node :: nref

text \<open>\<^verbatim>\<open>GameNode(game)\<close>: a new node object with no neighbours, at an unused address.\<close>

definition GameNode_init :: "heap \<Rightarrow> gref \<Rightarrow> nref \<times> heap" where
  "GameNode_init h g =
     (next_node h,
      h\<lparr>gnodes := (gnodes h)(next_node h := \<lparr>game = g, neighbours = []\<rparr>),
        next_node := Suc (next_node h)\<rparr>)"

section \<open>The graph\<close>

text \<open>
  A \<^verbatim>\<open>dict\<close> is an association list in insertion order with distinct keys. Assigning to
  a key that is present replaces its value in place; a new key goes to the end.
\<close>

type_synonym ('k, 'v) dict = "('k \<times> 'v) list"

fun dict_set :: "'k \<Rightarrow> 'v \<Rightarrow> ('k, 'v) dict \<Rightarrow> ('k, 'v) dict" where
  "dict_set k v [] = [(k, v)]"
| "dict_set k v ((k', v') # d) = (if k' = k then (k, v) # d else (k', v') # dict_set k v d)"

definition dict_get :: "('k, 'v) dict \<Rightarrow> 'k \<Rightarrow> error + 'v" where
  "dict_get d k = (case map_of d k of None \<Rightarrow> Inl KeyError | Some v \<Rightarrow> Inr v)"

text \<open>
  The attributes \<^verbatim>\<open>_nodes\<close> and \<^verbatim>\<open>_user_nodes\<close> are only annotated in the class body;
  an annotation creates no attribute. \<open>None\<close> stands for an attribute that does not
  exist on the object, and reading it raises \<^verbatim>\<open>AttributeError\<close>.
\<close>

record GameGraph =
  user_game_ids :: "pyval list"
  user_game_genres :: "string list"
  user_max_price :: float
  nodes :: "(int, nref) dict option"
  user_nodes :: "(int, nref) dict option"

definition GameGraph_init :: "pyval list \<Rightarrow> string list \<Rightarrow> float \<Rightarrow> GameGraph" where
  "GameGraph_init ids gs mp =
     \<lparr>user_game_ids = ids, user_game_genres = gs, user_max_price = mp,
      nodes = None, user_nodes = None\<rparr>"

definition add_game :: "GameGraph \<Rightarrow> heap \<Rightarrow> gref \<Rightarrow> error option \<times> GameGraph \<times> heap" where
  "add_game gr h g =
     (let gid = game_id (games h g);
          (game_node, h1) = GameNode_init h g
      in case nodes gr of
           None \<Rightarrow> (Some AttributeError, gr, h1)
         | Some nm \<Rightarrow>
             let gr1 = gr\<lparr>nodes := Some (dict_set gid game_node nm)\<rparr>
             in if PyStr (lower (name (games h g))) \<in> set (user_game_ids gr)
                then (case user_nodes gr of
                        None \<Rightarrow> (Some AttributeError, gr1, h1)
                      | Some um \<Rightarrow>
                          (None, gr1\<lparr>user_nodes := Some (dict_set gid game_node um)\<rparr>, h1))
                else (None, gr1, h1))"

definition add_edge :: "heap \<Rightarrow> nref \<Rightarrow> nref \<Rightarrow> heap" where
  "add_edge h game1 user_node =
     (let n1 = gnodes h game1;
          h1 = h\<lparr>gnodes := (gnodes h)(game1 := n1\<lparr>neighbours := neighbours n1 @ [user_node]\<rparr>)\<rparr>;
          n2 = gnodes h1 user_node
      in h1\<lparr>gnodes := (gnodes h1)(user_node := n2\<lparr>neighbours := neighbours n2 @ [game1]\<rparr>)\<rparr>)"

text \<open>
  The inner loop of \<^verbatim>\<open>add_all_edges\<close>, over the keys of \<^verbatim>\<open>_nodes\<close>. Both nodes are
  looked up in \<^verbatim>\<open>_user_nodes\<close>. \<^verbatim>\<open>GameNode\<close> defines no \<^verbatim>\<open>__eq__\<close>, so \<^verbatim>\<open>!=\<close> compares
  object identity.
\<close>

fun add_all_edges_inner ::
  "(int, nref) dict \<Rightarrow> int \<Rightarrow> int list \<Rightarrow> heap \<Rightarrow> error option \<times> heap" where
  "add_all_edges_inner um user_id [] h = (None, h)"
| "add_all_edges_inner um user_id (other_id # rest) h =
     (case dict_get um user_id of
        Inl e \<Rightarrow> (Some e, h)
      | Inr user_node \<Rightarrow>
          (case dict_get um other_id of
             Inl e \<Rightarrow> (Some e, h)
           | Inr other_node \<Rightarrow>
               add_all_edges_inner um user_id rest
                 (if user_node \<noteq> other_node then add_edge h other_node user_node else h)))"

fun add_all_edges_outer ::
  "GameGraph \<Rightarrow> (int, nref) dict \<Rightarrow> int list \<Rightarrow> heap \<Rightarrow> error option \<times> heap" where
  "add_all_edges_outer gr um [] h = (None, h)"
| "add_all_edges_outer gr um (user_id # rest) h =
     (case nodes gr of
        None \<Rightarrow> (Some AttributeError, h)
      | Some nm \<Rightarrow>
          (case add_all_edges_inner um user_id (map fst nm) h of
             (Some e, h') \<Rightarrow> (Some e, h')
           | (None, h') \<Rightarrow> add_all_edges_outer gr um rest h'))"

definition add_all_edges :: "GameGraph \<Rightarrow> heap \<Rightarrow> error option \<times> heap" where
  "add_all_edges gr h =
     (case user_nodes gr of
        None \<Rightarrow> (Some AttributeError, h)
      | Some um \<Rightarrow> add_all_edges_outer gr um (map fst um) h)"

section \<open>Scoring\<close>

text \<open>
  In the loops \<^verbatim>\<open>for game_id in self._nodes: node = self._nodes[game_id]\<close> the node is
  the value stored under the key of the iteration, so the model iterates over the items.
\<close>

definition max_price :: "GameGraph \<Rightarrow> heap \<Rightarrow> error + float" where
  "max_price gr h =
     (case nodes gr of
        None \<Rightarrow> Inl AttributeError
      | Some nm \<Rightarrow>
          Inr (foldl (\<lambda>max_so_far (gid, node).
                        let p = price (games h (game (gnodes h node)))
                        in if p > max_so_far then p else max_so_far) 0 nm))"

definition max_positive_ratio :: "GameGraph \<Rightarrow> heap \<Rightarrow> error + int" where
  "max_positive_ratio gr h =
     (case nodes gr of
        None \<Rightarrow> Inl AttributeError
      | Some nm \<Rightarrow>
          Inr (foldl (\<lambda>max_so_far (gid, node).
                        let r = positive_ratio (games h (game (gnodes h node)))
                        in if r > max_so_far then r else max_so_far) 0 nm))"

text \<open>
  \<^verbatim>\<open>user_genres\<close> returns \<^verbatim>\<open>list(genres_so_far)\<close> for a set of strings. The order of
  that list is not determined by the program; its callers use only its length and
  membership in it, and the model lists the distinct genres.
\<close>

definition user_genres :: "GameGraph \<Rightarrow> heap \<Rightarrow> error + string list" where
  "user_genres gr h =
     (if user_game_genres gr \<noteq> [] then Inr (user_game_genres gr)
      else case user_nodes gr of
             None \<Rightarrow> Inl AttributeError
           | Some um \<Rightarrow>
               Inr (remdups (concat (map (\<lambda>(gid, node). genres (games h (game (gnodes h node)))) um))))"

definition edges_exist :: "GameGraph \<Rightarrow> heap \<Rightarrow> error + bool" where
  "edges_exist gr h =
     (case user_nodes gr of
        None \<Rightarrow> Inl AttributeError
      | Some um \<Rightarrow> Inr (\<exists>(gid, node) \<in> set um. neighbours (gnodes h node) \<noteq> []))"

text \<open>The weights are the doubles nearest to the decimal literals.\<close>

definition rating_price_weight :: float where
  "rating_price_weight = fl_round (6 / 10)"

definition neighbour_weight :: float where
  "neighbour_weight = fl_round (3 / 10)"

definition genre_weight :: float where
  "genre_weight = fl_round (1 / 10)"

text \<open>
  The three signals of \<^verbatim>\<open>compute_score\<close>, one definition for each assignment, with
  Python's left-to-right evaluation of the operands.
\<close>

definition rating_price :: "Game \<Rightarrow> int \<Rightarrow> float \<Rightarrow> error + float" where
  "rating_price g max_ratio max_p =
     (case py_truediv (of_int (positive_ratio g)) (of_int max_ratio) of
        Inl e \<Rightarrow> Inl e
      | Inr a \<Rightarrow>
          (case py_truediv (fl_sub max_p (price g)) max_p of
             Inl e \<Rightarrow> Inl e
           | Inr b \<Rightarrow> Inr (fl_mul (fl_mul a b) rating_price_weight)))"

definition neighbour_score :: "GameGraph \<Rightarrow> heap \<Rightarrow> nref \<Rightarrow> error + float" where
  "neighbour_score gr h game_node =
     (case user_nodes gr of
        None \<Rightarrow> Inl AttributeError
      | Some um \<Rightarrow>
          (case py_truediv (of_nat (length (neighbours (gnodes h game_node))))
                           (of_nat (length um)) of
             Inl e \<Rightarrow> Inl e
           | Inr a \<Rightarrow> Inr (fl_mul a neighbour_weight)))"

definition genre_score :: "Game \<Rightarrow> string list \<Rightarrow> error + float" where
  "genre_score g ug =
     (case genre_count g ug of
        Inl e \<Rightarrow> Inl e
      | Inr c \<Rightarrow>
          (case py_truediv (of_int c) (of_nat (length ug)) of
             Inl e \<Rightarrow> Inl e
           | Inr a \<Rightarrow> Inr (fl_mul a genre_weight)))"

definition set_rating :: "heap \<Rightarrow> gref \<Rightarrow> float \<Rightarrow> heap" where
  "set_rating h g r = h\<lparr>games := (games h)(g := (games h g)\<lparr>rating := Some r\<rparr>)\<rparr>"

definition compute_score :: "GameGraph \<Rightarrow> heap \<Rightarrow> nref \<Rightarrow> error option \<times> heap" where
  "compute_score gr h game_node =
     (if fl_add (fl_add rating_price_weight neighbour_weight) genre_weight \<noteq> 1
      then (Some AssertionError, h)
      else case user_genres gr h of
        Inl e \<Rightarrow> (Some e, h)
      | Inr ug \<Rightarrow>
      let g = game (gnodes h game_node) in
      case max_price gr h of
        Inl e \<Rightarrow> (Some e, h)
      | Inr max_p \<Rightarrow>
      case max_positive_ratio gr h of
        Inl e \<Rightarrow> (Some e, h)
      | Inr max_ratio \<Rightarrow>
      case rating_price (games h g) max_ratio max_p of
        Inl e \<Rightarrow> (Some e, h)
      | Inr rp \<Rightarrow>
      case neighbour_score gr h game_node of
        Inl e \<Rightarrow> (Some e, h)
      | Inr ns \<Rightarrow>
      case genre_score (games h g) ug of
        Inl e \<Rightarrow> (Some e, h)
      | Inr gs \<Rightarrow>
          if price (games h g) > user_max_price gr then (None, set_rating h g 0)
          else if \<not> (fl_add (fl_add rp ns) gs \<le> 1) then (Some AssertionError, h)
          else (None, set_rating h g (fl_add (fl_add rp ns) gs)))"

fun assign_all_scores_loop :: "GameGraph \<Rightarrow> nref list \<Rightarrow> heap \<Rightarrow> error option \<times> heap" where
  "assign_all_scores_loop gr [] h = (None, h)"
| "assign_all_scores_loop gr (node # rest) h =
     (case compute_score gr h node of
        (Some e, h') \<Rightarrow> (Some e, h')
      | (None, h') \<Rightarrow> assign_all_scores_loop gr rest h')"

definition assign_all_scores :: "GameGraph \<Rightarrow> heap \<Rightarrow> error option \<times> heap" where
  "assign_all_scores gr h =
     (case nodes gr of
        None \<Rightarrow> (Some AttributeError, h)
      | Some nm \<Rightarrow> assign_all_scores_loop gr (map snd nm) h)"

section \<open>Ranking\<close>

definition rating_of :: "heap \<Rightarrow> gref \<Rightarrow> error + float" where
  "rating_of h g = (case rating (games h g) of None \<Rightarrow> Inl AttributeError | Some r \<Rightarrow> Inr r)"

text \<open>
  \<^verbatim>\<open>highest_scoring_game\<close> iterates over a set of \<^verbatim>\<open>Game\<close> objects; the list argument
  is that set in its iteration order.
\<close>

fun highest_scoring_game_loop ::
  "heap \<Rightarrow> gref list \<Rightarrow> float \<Rightarrow> gref option \<Rightarrow> error + gref option" where
  "highest_scoring_game_loop h [] highest_score_so_far game_so_far = Inr game_so_far"
| "highest_scoring_game_loop h (g # rest) highest_score_so_far game_so_far =
     (case rating_of h g of
        Inl e \<Rightarrow> Inl e
      | Inr r \<Rightarrow>
          if r \<ge> highest_score_so_far then highest_scoring_game_loop h rest r (Some g)
          else highest_scoring_game_loop h rest highest_score_so_far game_so_far)"

definition highest_scoring_game :: "heap \<Rightarrow> gref list \<Rightarrow> error + gref option" where
  "highest_scoring_game h game_list = highest_scoring_game_loop h game_list 0 None"

definition swap :: "'a list \<Rightarrow> nat \<Rightarrow> nat \<Rightarrow> 'a list" where
  "swap xs i j = xs[i := xs ! j, j := xs ! i]"

text \<open>The inner loop of \<^verbatim>\<open>sort_games\<close> runs over \<^verbatim>\<open>range(index1, 0, -1)\<close>.\<close>

fun sort_games_inner :: "heap \<Rightarrow> nat list \<Rightarrow> gref list \<Rightarrow> error + gref list" where
  "sort_games_inner h [] gs = Inr gs"
| "sort_games_inner h (index2 # rest) gs =
     (case rating_of h (gs ! index2) of
        Inl e \<Rightarrow> Inl e
      | Inr r2 \<Rightarrow>
          (case rating_of h (gs ! (index2 - 1)) of
             Inl e \<Rightarrow> Inl e
           | Inr r1 \<Rightarrow>
               sort_games_inner h rest (if r2 > r1 then swap gs index2 (index2 - 1) else gs)))"

fun sort_games_outer :: "heap \<Rightarrow> nat list \<Rightarrow> gref list \<Rightarrow> error + gref list" where
  "sort_games_outer h [] gs = Inr gs"
| "sort_games_outer h (index1 # rest) gs =
     (case rating_of h (gs ! index1) of
        Inl e \<Rightarrow> Inl e
      | Inr r1 \<Rightarrow>
          (case rating_of h (gs ! (index1 + 1)) of
             Inl e \<Rightarrow> Inl e
           | Inr r2 \<Rightarrow>
               if r1 < r2
               then (case sort_games_inner h (rev [1..<Suc index1]) (swap gs index1 (index1 + 1)) of
                       Inl e \<Rightarrow> Inl e
                     | Inr gs' \<Rightarrow> sort_games_outer h rest gs')
               else sort_games_outer h rest gs))"

definition sort_games :: "heap \<Rightarrow> gref list \<Rightarrow> error + gref list" where
  "sort_games h gs = sort_games_outer h [0..<length gs - 1] gs"

text \<open>
  The selection loop of \<^verbatim>\<open>top_games\<close>; \<open>totl\<close> is its parameter \<^verbatim>\<open>total\<close>.
  \<^verbatim>\<open>highest_scoring_game\<close> returns \<^verbatim>\<open>None\<close> when
  no game has a rating of at least 0 (in particular for the empty set), and
  \<^verbatim>\<open>possible_suggestions.remove(None)\<close> raises \<^verbatim>\<open>KeyError\<close>. Removing an element does
  not change the iteration order of the others.
\<close>

function top_games_loop :: "heap \<Rightarrow> int \<Rightarrow> gref list \<Rightarrow> gref list \<Rightarrow> error + gref list" where
  "top_games_loop h totl possible_suggestions actual_suggestions =
     (if int (length actual_suggestions) \<noteq> totl \<or> length possible_suggestions = 0
      then (case highest_scoring_game h possible_suggestions of
              Inl e \<Rightarrow> Inl e
            | Inr None \<Rightarrow> Inl KeyError
            | Inr (Some g) \<Rightarrow>
                top_games_loop h totl (remove1 g possible_suggestions) (actual_suggestions @ [g]))
      else Inr actual_suggestions)"
  by pat_completeness auto
termination
proof (relation "measure (\<lambda>(h, n, possible, actual). length possible)", goal_cases)
  case 1
  show ?case by simp
next
  case (2 h n possible actual opt g)
  have "highest_scoring_game_loop h gs s acc = Inr (Some g) \<Longrightarrow> g \<in> set gs \<or> acc = Some g"
    for gs s acc
    by (induction gs arbitrary: s acc) (auto split: sum.splits if_splits)
  from this [of possible 0 None] 2 have "g \<in> set possible"
    by (simp add: highest_scoring_game_def)
  then show ?case
    using length_pos_if_in_set [of g possible] by (simp add: length_remove1)
qed

text \<open>
  A Python set of objects iterates in an order fixed by the hash table, not by the
  program. \<open>set_iter\<close> gives, for the sequence of elements added to an empty set, the
  order in which the resulting set iterates. \<open>catalog_games\<close> is the sequence of games
  that \<^verbatim>\<open>top_games\<close> adds to \<^verbatim>\<open>possible_suggestions\<close>.
\<close>

definition catalog_games :: "heap \<Rightarrow> (int, nref) dict \<Rightarrow> gref list" where
  "catalog_games h nm = map (\<lambda>(gid, node). game (gnodes h node)) nm"

definition top_games ::
  "(gref list \<Rightarrow> gref list) \<Rightarrow> GameGraph \<Rightarrow> heap \<Rightarrow> int \<Rightarrow> error + gref list" where
  "top_games set_iter gr h totl =
     (case nodes gr of
        None \<Rightarrow> Inl AttributeError
      | Some nm \<Rightarrow>
          (case top_games_loop h totl (set_iter (catalog_games h nm)) [] of
             Inl e \<Rightarrow> Inl e
           | Inr actual_suggestions \<Rightarrow> sort_games h actual_suggestions))"

function highest_scoring_games_loop ::
  "heap \<Rightarrow> int \<Rightarrow> gref list \<Rightarrow> gref list \<Rightarrow> error + gref list" where
  "highest_scoring_games_loop h total_games possible_suggestions actual_suggestions =
     (if possible_suggestions \<noteq> [] \<or> int (length actual_suggestions) = total_games
      then (case highest_scoring_game h possible_suggestions of
              Inl e \<Rightarrow> Inl e
            | Inr None \<Rightarrow> Inl KeyError
            | Inr (Some g) \<Rightarrow>
                highest_scoring_games_loop h total_games (remove1 g possible_suggestions)
                  (actual_suggestions @ [g]))
      else Inr actual_suggestions)"
  by pat_completeness auto
termination
proof (relation "measure (\<lambda>(h, n, possible, actual). length possible)", goal_cases)
  case 1
  show ?case by simp
next
  case (2 h n possible actual opt g)
  have "highest_scoring_game_loop h gs s acc = Inr (Some g) \<Longrightarrow> g \<in> set gs \<or> acc = Some g"
    for gs s acc
    by (induction gs arbitrary: s acc) (auto split: sum.splits if_splits)
  from this [of possible 0 None] 2 have "g \<in> set possible"
    by (simp add: highest_scoring_game_def)
  then show ?case
    using length_pos_if_in_set [of g possible] by (simp add: length_remove1)
qed

text \<open>
  The games added to \<^verbatim>\<open>possible_suggestions\<close> by \<^verbatim>\<open>highest_scoring_games\<close>. The test
  \<^verbatim>\<open>neighbour not in possible_suggestions\<close> looks for a \<^verbatim>\<open>GameNode\<close> in a set of
  \<^verbatim>\<open>Game\<close> objects and always holds, so every neighbour's game is added.
\<close>

definition neighbour_games :: "heap \<Rightarrow> (int, nref) dict \<Rightarrow> gref list" where
  "neighbour_games h um =
     concat (map (\<lambda>(gid, node). map (\<lambda>neighbour. game (gnodes h neighbour))
                                     (neighbours (gnodes h node))) um)"

definition highest_scoring_games ::
  "(gref list \<Rightarrow> gref list) \<Rightarrow> GameGraph \<Rightarrow> heap \<Rightarrow> int \<Rightarrow> error + gref list" where
  "highest_scoring_games set_iter gr h total_games =
     (case user_nodes gr of
        None \<Rightarrow> Inl AttributeError
      | Some um \<Rightarrow>
          let possible_suggestions = set_iter (neighbour_games h um)
          in if possible_suggestions \<noteq> []
             then (case highest_scoring_games_loop h total_games possible_suggestions [] of
                     Inl e \<Rightarrow> Inl e
                   | Inr actual_suggestions \<Rightarrow> sort_games h actual_suggestions)
             else top_games set_iter gr h total_games)"

section \<open>Notions used to state the properties\<close>

text \<open>
  \<open>set_order\<close>: what is assumed of the iteration order of a set, namely that the set
  iterates once over each element that was added.
\<close>

definition set_order :: "(gref list \<Rightarrow> gref list) \<Rightarrow> bool" where
  "set_order set_iter = (\<forall>xs. distinct (set_iter xs) \<and> set (set_iter xs) = set xs)"

text \<open>\<open>precedes xs x y\<close>: \<open>y\<close> occurs after the first occurrence of \<open>x\<close> in \<open>xs\<close>.\<close>

fun precedes :: "'a list \<Rightarrow> 'a \<Rightarrow> 'a \<Rightarrow> bool" where
  "precedes [] x y = False"
| "precedes (z # zs) x y = (if z = x then y \<in> set zs else precedes zs x y)"

text \<open>
  \<open>outranks h cand x y\<close>: both games have a rating, and \<open>x\<close> has the higher one, or they
  have the same rating and \<open>x\<close> comes after \<open>y\<close> in the candidate collection \<open>cand\<close>.
\<close>

definition outranks :: "heap \<Rightarrow> gref list \<Rightarrow> gref \<Rightarrow> gref \<Rightarrow> bool" where
  "outranks h cand x y =
     (case (rating (games h x), rating (games h y)) of
        (Some rx, Some ry) \<Rightarrow> ry < rx \<or> (rx = ry \<and> precedes cand y x)
      | _ \<Rightarrow> False)"

text \<open>\<open>rated h gs\<close>: every game of \<open>gs\<close> has been given a rating, and none is negative.\<close>

definition rated :: "heap \<Rightarrow> gref list \<Rightarrow> bool" where
  "rated h gs = (\<forall>g \<in> set gs. \<exists>r. rating (games h g) = Some r \<and> 0 \<le> r)"

definition score :: "heap \<Rightarrow> gref \<Rightarrow> float" where
  "score h g = (case rating (games h g) of None \<Rightarrow> 0 | Some r \<Rightarrow> r)"

text \<open>\<open>app_nb h A\<close>: the store \<open>h\<close> with \<open>A n\<close> appended to the neighbours of every node \<open>n\<close>.\<close>

definition app_nb :: "heap \<Rightarrow> (nref \<Rightarrow> nref list) \<Rightarrow> heap" where
  "app_nb h A = h\<lparr>gnodes := (\<lambda>n. (gnodes h n)\<lparr>neighbours := neighbours (gnodes h n) @ A n\<rparr>)\<rparr>"

definition no_self :: "(nref \<Rightarrow> nref list) \<Rightarrow> bool" where
  "no_self A = (\<forall>n. n \<notin> set (A n))"

section \<open>Example states\<close>

text \<open>
  The catalog of the specification's first scenario: game A (id 1, price 10, ratio 80) and
  game B (id 2, price 60, ratio 90), both of genre RPG, each wrapped in a node; the user
  owns game 1, names no genre and pays at most 50. In \<open>scenario_graph\<close> both mappings
  exist and node 0 is registered as the anchor.
\<close>

definition scenario_heap :: heap where
  "scenario_heap =
     \<lparr>games = (\<lambda>_. Game_init (0, []) [] 0 0)
                (0 := Game_init (1, ''A'') [''RPG''] 10 80,
                 1 := Game_init (2, ''B'') [''RPG''] 60 90),
      gnodes = (\<lambda>_. \<lparr>game = 0, neighbours = []\<rparr>)
                 (0 := \<lparr>game = 0, neighbours = []\<rparr>, 1 := \<lparr>game = 1, neighbours = []\<rparr>),
      next_node = 2\<rparr>"

definition scenario_graph :: GameGraph where
  "scenario_graph =
     \<lparr>user_game_ids = [PyInt 1], user_game_genres = [], user_max_price = 50,
      nodes = Some [(1, 0), (2, 1)], user_nodes = Some [(1, 0)]\<rparr>"

text \<open>The same user, with both mappings created empty after construction.\<close>

definition empty_graph :: GameGraph where
  "empty_graph = (GameGraph_init [PyInt 1] [] 50)\<lparr>nodes := Some [], user_nodes := Some []\<rparr>"

text \<open>A graph over the same two nodes in which both are anchors.\<close>

definition all_anchor_graph :: GameGraph where
  "all_anchor_graph =
     \<lparr>user_game_ids = [PyStr ''a'', PyStr ''b''], user_game_genres = [], user_max_price = 50,
      nodes = Some [(1, 0), (2, 1)], user_nodes = Some [(1, 0), (2, 1)]\<rparr>"

text \<open>
  Three games with ratings 0.5, 0.5 and 0.25 already assigned, in a graph without
  anchors.
\<close>

definition ranked_heap :: heap where
  "ranked_heap =
     \<lparr>games = (\<lambda>_. Game_init (0, []) [] 0 0)
                (0 := (Game_init (1, ''A'') [''RPG''] 10 80)\<lparr>rating := Some (1 / 2)\<rparr>,
                 1 := (Game_init (2, ''B'') [''RPG''] 20 80)\<lparr>rating := Some (1 / 2)\<rparr>,
                 2 := (Game_init (3, ''C'') [''RPG''] 30 40)\<lparr>rating := Some (1 / 4)\<rparr>),
      gnodes = (\<lambda>_. \<lparr>game = 0, neighbours = []\<rparr>)
                 (0 := \<lparr>game = 0, neighbours = []\<rparr>, 1 := \<lparr>game = 1, neighbours = []\<rparr>,
                  2 := \<lparr>game = 2, neighbours = []\<rparr>),
      next_node = 3\<rparr>"

definition ranked_graph :: GameGraph where
  "ranked_graph =
     \<lparr>user_game_ids = [], user_game_genres = [], user_max_price = 50,
      nodes = Some [(1, 0), (2, 1), (3, 2)], user_nodes = Some []\<rparr>"

text \<open>
  The same three games with edges: node 0 is the only anchor and is linked to nodes 1
  and 2.
\<close>

definition linked_heap :: heap where
  "linked_heap =
     ranked_heap\<lparr>gnodes := (gnodes ranked_heap)
        (0 := \<lparr>game = 0, neighbours = [1, 2]\<rparr>, 1 := \<lparr>game = 1, neighbours = [0]\<rparr>,
         2 := \<lparr>game = 2, neighbours = [0]\<rparr>)\<rparr>"

definition linked_graph :: GameGraph where
  "linked_graph = ranked_graph\<lparr>user_nodes := Some [(1, 0)]\<rparr>"

text \<open>
  A degenerate input: a single free game with ratio 0, no anchors and no preferred
  genres.
\<close>

definition degenerate_heap :: heap where
  "degenerate_heap =
     \<lparr>games = (\<lambda>_. Game_init (1, ''A'') [''RPG''] 0 0),
      gnodes = (\<lambda>_. \<lparr>game = 0, neighbours = []\<rparr>),
      next_node = 1\<rparr>"

definition degenerate_graph :: GameGraph where
  "degenerate_graph =
     \<lparr>user_game_ids = [], user_game_genres = [], user_max_price = 50,
      nodes = Some [(1, 0)], user_nodes = Some []\<rparr>"

section \<open>Properties of construction\<close>

text \<open>
  C10. A graph built by the constructor has neither \<^verbatim>\<open>_nodes\<close> nor \<^verbatim>\<open>_user_nodes\<close>.
  On such a graph \<^verbatim>\<open>add_game\<close> raises \<^verbatim>\<open>AttributeError\<close> and returns the graph as it
  was (so no sequence of \<^verbatim>\<open>add_game\<close> calls ever inserts a node), and \<^verbatim>\<open>add_all_edges\<close>,
  \<^verbatim>\<open>assign_all_scores\<close>, \<^verbatim>\<open>top_games\<close> and \<^verbatim>\<open>highest_scoring_games\<close> raise
  \<^verbatim>\<open>AttributeError\<close> as well.
\<close>

theorem fresh_graph_operations_raise:
  "add_game (GameGraph_init ids gs mp) h g
     = (Some AttributeError, GameGraph_init ids gs mp, snd (GameNode_init h g))
   \<and> add_all_edges (GameGraph_init ids gs mp) h = (Some AttributeError, h)
   \<and> assign_all_scores (GameGraph_init ids gs mp) h = (Some AttributeError, h)
   \<and> top_games set_iter (GameGraph_init ids gs mp) h totl = Inl AttributeError
   \<and> highest_scoring_games set_iter (GameGraph_init ids gs mp) h totl = Inl AttributeError"
  by (simp add: add_game_def add_all_edges_def assign_all_scores_def top_games_def
      highest_scoring_games_def GameGraph_init_def GameNode_init_def Let_def)

lemma dict_set_keys: "k \<in> fst ` set d \<Longrightarrow> map fst (dict_set k v d) = map fst d"
  by (induction d) force+

lemma map_of_dict_set: "map_of (dict_set k v d) = (map_of d)(k \<mapsto> v)"
  by (induction d) (auto simp: fun_eq_iff)

text \<open>
  C8 as stated fails: adding game A (id 1) to the scenario graph, where id 1 is already a
  key, raises nothing and replaces node 0 by the new node 2 under that key.
\<close>

theorem add_game_duplicate_id_counterexample:
  "map_of [(1, 0), (2, 1)] (game_id (games scenario_heap 0)) = Some (0 :: nat)
   \<and> fst (add_game scenario_graph scenario_heap 0) = None
   \<and> nodes (fst (snd (add_game scenario_graph scenario_heap 0))) = Some [(1, 2), (2, 1)]"
  by (simp add: add_game_def scenario_graph_def GameNode_init_def
      scenario_heap_def Game_init_def Let_def)

text \<open>
  C8, amended. On a graph whose two mappings exist, \<^verbatim>\<open>add_game\<close> with a record whose id
  is already a key of \<^verbatim>\<open>_nodes\<close> raises nothing: the keys of \<^verbatim>\<open>_nodes\<close> and their order
  stay as they were, and the id now maps to a new node that wraps the record and has no
  neighbours.
\<close>

theorem add_game_duplicate_id_overwrites:
  assumes "nodes gr = Some nm" and "user_nodes gr = Some um"
    and "game_id (games h g) \<in> fst ` set nm"
  shows "fst (add_game gr h g) = None
    \<and> (\<exists>nm'. nodes (fst (snd (add_game gr h g))) = Some nm'
          \<and> map fst nm' = map fst nm
          \<and> map_of nm' = (map_of nm)(game_id (games h g) \<mapsto> next_node h))
    \<and> gnodes (snd (snd (add_game gr h g))) (next_node h) = \<lparr>game = g, neighbours = []\<rparr>"
  using assms
  by (simp add: add_game_def GameNode_init_def Let_def dict_set_keys map_of_dict_set)

theorem add_game_duplicate_id_overwrites_witness:
  "nodes scenario_graph = Some [(1, 0), (2, 1)]
   \<and> user_nodes scenario_graph = Some [(1, 0)]
   \<and> game_id (games scenario_heap 0) \<in> fst ` set [(1, 0 :: nat), (2, 1)]
   \<and> fst (add_game scenario_graph scenario_heap 0) = None
   \<and> (\<exists>nm'. nodes (fst (snd (add_game scenario_graph scenario_heap 0))) = Some nm'
         \<and> map fst nm' = map fst [(1, 0 :: nat), (2, 1)]
         \<and> map_of nm' = (map_of [(1, 0), (2, 1)])
                           (game_id (games scenario_heap 0) \<mapsto> next_node scenario_heap))
   \<and> gnodes (snd (snd (add_game scenario_graph scenario_heap 0))) (next_node scenario_heap)
       = \<lparr>game = 0, neighbours = []\<rparr>"
proof -
  have 1: "nodes scenario_graph = Some [(1, 0), (2, 1)]"
    and 2: "user_nodes scenario_graph = Some [(1, 0)]"
    by (simp_all add: scenario_graph_def)
  have 3: "game_id (games scenario_heap 0) \<in> fst ` set [(1, 0 :: nat), (2, 1)]"
    by (simp add: scenario_heap_def Game_init_def)
  show ?thesis
    using add_game_duplicate_id_overwrites [OF 1 2 3] 1 2 3 by blast
qed

lemma add_game_int_ids_no_anchor:
  assumes "\<forall>v \<in> set (user_game_ids gr). \<exists>i. v = PyInt i"
  shows "user_nodes (fst (snd (add_game gr h g))) = user_nodes gr"
proof -
  have "PyStr (lower (name (games h g))) \<notin> set (user_game_ids gr)"
    using assms by auto
  then show ?thesis
    by (simp add: add_game_def GameNode_init_def Let_def split: option.splits)
qed

text \<open>
  C9, at a failing input. The user owns game id 1 and both mappings exist. Adding game A,
  whose id is 1, inserts its node into \<^verbatim>\<open>_nodes\<close> but does not register it in
  \<^verbatim>\<open>_user_nodes\<close>: \<^verbatim>\<open>add_game\<close> looks for the lowercased name in the list of owned ids.
\<close>

theorem add_game_owned_id_not_anchor:
  "game_id (games scenario_heap 0) = 1
   \<and> PyInt (game_id (games scenario_heap 0)) \<in> set (user_game_ids empty_graph)
   \<and> fst (add_game empty_graph scenario_heap 0) = None
   \<and> nodes (fst (snd (add_game empty_graph scenario_heap 0))) = Some [(1, 2)]
   \<and> user_nodes (fst (snd (add_game empty_graph scenario_heap 0))) = Some []"
  by (simp add: add_game_def empty_graph_def GameGraph_init_def GameNode_init_def
      scenario_heap_def Game_init_def Let_def)

section \<open>Properties of edge building\<close>

lemma add_all_edges_inner_KeyError:
  "other_id \<in> set ids \<Longrightarrow> map_of um other_id = None \<Longrightarrow>
   fst (add_all_edges_inner um user_id ids h) = Some KeyError"
  by (induction ids arbitrary: h) (auto simp: dict_get_def split: option.splits)

lemma add_all_edges_non_anchor_raises:
  assumes "user_nodes gr = Some (a # um)" and "nodes gr = Some nm"
    and "(other_id, n) \<in> set nm" and "map_of (a # um) other_id = None"
  shows "fst (add_all_edges gr h) = Some KeyError"
proof -
  have "other_id \<in> set (map fst nm)" using assms(3) by force
  then have "fst (add_all_edges_inner (a # um) (fst a) (map fst nm) h) = Some KeyError"
    using assms(4) by (rule add_all_edges_inner_KeyError)
  then show ?thesis
    using assms(1,2) by (auto simp: add_all_edges_def split: prod.splits option.splits)
qed

text \<open>
  C4, at a failing input. In the scenario graph node 0 is an anchor and node 1 is not.
  \<^verbatim>\<open>add_all_edges\<close> looks node 1 up in \<^verbatim>\<open>_user_nodes\<close>, raises \<^verbatim>\<open>KeyError\<close> and leaves
  the store as it was: the anchor is not a neighbour of node 1.
\<close>

theorem add_all_edges_non_anchor_KeyError:
  "add_all_edges scenario_graph scenario_heap = (Some KeyError, scenario_heap)
   \<and> neighbours (gnodes (snd (add_all_edges scenario_graph scenario_heap)) 1) = []"
proof -
  have a: "add_all_edges scenario_graph scenario_heap = (Some KeyError, scenario_heap)"
    by (simp add: add_all_edges_def scenario_graph_def dict_get_def)
  show ?thesis
    by (simp add: a) (simp add: scenario_heap_def)
qed

lemma app_nb_empty: "app_nb h (\<lambda>_. []) = h"
  by (simp add: app_nb_def)

lemma app_nb_app_nb: "app_nb (app_nb h A) B = app_nb h (\<lambda>n. A n @ B n)"
  by (simp add: app_nb_def)

lemma add_edge_app_nb:
  "add_edge h a b = app_nb h (((\<lambda>_. [])(a := [b]))(b := ((\<lambda>_. [])(a := [b])) b @ [a]))"
  by (auto simp: add_edge_def app_nb_def fun_eq_iff Let_def)

lemma add_all_edges_inner_appends:
  "\<exists>e B. no_self B \<and> (\<forall>h. add_all_edges_inner um user_id ids h = (e, app_nb h B))"
proof (induction ids)
  case Nil
  have "no_self (\<lambda>_. [])" by (simp add: no_self_def)
  then show ?case using app_nb_empty by fastforce
next
  case (Cons other_id ids)
  then obtain e B where B: "no_self B" "\<And>h. add_all_edges_inner um user_id ids h = (e, app_nb h B)"
    by blast
  show ?case
  proof (cases "dict_get um user_id")
    case (Inl x)
    have "no_self (\<lambda>_. [])" by (simp add: no_self_def)
    then show ?thesis using Inl app_nb_empty by (intro exI [of _ "Some x"] exI [of _ "\<lambda>_. []"]) simp
  next
    case (Inr user_node)
    note u = this
    show ?thesis
    proof (cases "dict_get um other_id")
      case (Inl x)
      have "no_self (\<lambda>_. [])" by (simp add: no_self_def)
      then show ?thesis using u Inl app_nb_empty
        by (intro exI [of _ "Some x"] exI [of _ "\<lambda>_. []"]) simp
    next
      case (Inr other_node)
      show ?thesis
      proof (cases "user_node = other_node")
        case True
        then show ?thesis using u Inr B by (intro exI [of _ e] exI [of _ B]) simp
      next
        case False
        let ?E = "((\<lambda>_. [])(other_node := [user_node]))
                    (user_node := ((\<lambda>_. [])(other_node := [user_node])) user_node @ [other_node])"
        have "no_self (\<lambda>n. ?E n @ B n)"
          using False B(1) by (auto simp: no_self_def)
        moreover have "\<And>h. add_all_edges_inner um user_id (other_id # ids) h
                         = (e, app_nb h (\<lambda>n. ?E n @ B n))"
          using u Inr False B(2) by (simp add: add_edge_app_nb app_nb_app_nb)
        ultimately show ?thesis by blast
      qed
    qed
  qed
qed

lemma add_all_edges_outer_appends:
  "\<exists>e B. no_self B \<and> (\<forall>h. add_all_edges_outer gr um ids h = (e, app_nb h B))"
proof (induction ids)
  case Nil
  have "no_self (\<lambda>_. [])" by (simp add: no_self_def)
  then show ?case using app_nb_empty by fastforce
next
  case (Cons user_id ids)
  then obtain e B where B: "no_self B" "\<And>h. add_all_edges_outer gr um ids h = (e, app_nb h B)"
    by blast
  show ?case
  proof (cases "nodes gr")
    case None
    have "no_self (\<lambda>_. [])" by (simp add: no_self_def)
    then show ?thesis using None app_nb_empty
      by (intro exI [of _ "Some AttributeError"] exI [of _ "\<lambda>_. []"]) simp
  next
    case (Some nm)
    obtain e1 B1 where B1: "no_self B1"
      "\<And>h. add_all_edges_inner um user_id (map fst nm) h = (e1, app_nb h B1)"
      using add_all_edges_inner_appends by blast
    show ?thesis
    proof (cases e1)
      case None
      have "no_self (\<lambda>n. B1 n @ B n)" using B(1) B1(1) by (auto simp: no_self_def)
      moreover have "\<And>h. add_all_edges_outer gr um (user_id # ids) h = (e, app_nb h (\<lambda>n. B1 n @ B n))"
        using Some None B1(2) B(2) by (simp add: app_nb_app_nb)
      ultimately show ?thesis by blast
    next
      case (Some x)
      have "\<And>h. add_all_edges_outer gr um (user_id # ids) h = (Some x, app_nb h B1)"
        using \<open>nodes gr = Some nm\<close> Some B1(2) by simp
      then show ?thesis using B1(1) by blast
    qed
  qed
qed

lemma add_all_edges_appends:
  "\<exists>e B. no_self B \<and> (\<forall>h. add_all_edges gr h = (e, app_nb h B))"
proof (cases "user_nodes gr")
  case None
  have "no_self (\<lambda>_. [])" by (simp add: no_self_def)
  then show ?thesis using None app_nb_empty
    by (intro exI [of _ "Some AttributeError"] exI [of _ "\<lambda>_. []"]) (simp add: add_all_edges_def)
next
  case (Some um)
  then show ?thesis
    using add_all_edges_outer_appends [of gr um "map fst um"] by (simp add: add_all_edges_def)
qed

text \<open>
  C5 as stated fails: with two nodes that are both anchors, one call already gives node 0
  the neighbour list [1, 1], and a second call makes it [1, 1, 1, 1].
\<close>

theorem add_all_edges_twice_counterexample:
  "fst (add_all_edges all_anchor_graph scenario_heap) = None
   \<and> neighbours (gnodes (snd (add_all_edges all_anchor_graph scenario_heap)) 0) = [1, 1]
   \<and> neighbours (gnodes (snd (add_all_edges all_anchor_graph
        (snd (add_all_edges all_anchor_graph scenario_heap)))) 0) = [1, 1, 1, 1]"
  by (simp add: add_all_edges_def all_anchor_graph_def dict_get_def add_edge_def Let_def
      scenario_heap_def)

text \<open>
  C5, amended. A second call of \<^verbatim>\<open>add_all_edges\<close> ends as the first one did (with the
  same exception, if any) and leaves every node with the same set of neighbours as the
  first call; it appends to each neighbour list once more what the first call appended,
  so every edge is duplicated. No node is appended to its own list, and the nodes keep
  their games.
\<close>

theorem add_all_edges_twice:
  "fst (add_all_edges gr (snd (add_all_edges gr h))) = fst (add_all_edges gr h)
   \<and> set (neighbours (gnodes (snd (add_all_edges gr (snd (add_all_edges gr h)))) n))
       = set (neighbours (gnodes (snd (add_all_edges gr h)) n))
   \<and> neighbours (gnodes (snd (add_all_edges gr (snd (add_all_edges gr h)))) n)
       = neighbours (gnodes (snd (add_all_edges gr h)) n)
         @ drop (length (neighbours (gnodes h n)))
                (neighbours (gnodes (snd (add_all_edges gr h)) n))
   \<and> n \<notin> set (drop (length (neighbours (gnodes h n)))
                     (neighbours (gnodes (snd (add_all_edges gr h)) n)))
   \<and> game (gnodes (snd (add_all_edges gr (snd (add_all_edges gr h)))) n) = game (gnodes h n)"
proof -
  obtain e B where B: "no_self B" "\<And>h. add_all_edges gr h = (e, app_nb h B)"
    using add_all_edges_appends by blast
  show ?thesis
    using B(1) by (simp add: B(2) app_nb_app_nb) (auto simp: app_nb_def no_self_def)
qed

section \<open>Properties of scoring\<close>

lemma weights_sum_not_one:
  "fl_add (fl_add rating_price_weight neighbour_weight) genre_weight \<noteq> 1"
  by code_simp

lemma compute_score_raises: "compute_score gr h game_node = (Some AssertionError, h)"
  by (simp add: compute_score_def weights_sum_not_one)

lemma genre_count_raises: "genre_count g c = Inl TypeError"
  by (simp add: genre_count_def)

lemma genre_score_raises: "genre_score g ug = Inl TypeError"
  by (simp add: genre_score_def genre_count_raises)

lemma assign_all_scores_raises:
  "nodes gr = Some (x # nm) \<Longrightarrow> assign_all_scores gr h = (Some AssertionError, h)"
  by (simp add: assign_all_scores_def compute_score_raises)

text \<open>
  C1, at a failing input. In the scenario game B costs 60, more than the user's 50. The
  scoring pass raises \<^verbatim>\<open>AssertionError\<close> at the assertion on the weights (the sum of the
  three doubles is not 1.0) before it reaches the price test, and the rating of B is
  still unassigned afterwards, not 0.0.
\<close>

theorem price_ceiling_scoring_raises:
  "user_max_price scenario_graph < price (games scenario_heap 1)
   \<and> compute_score scenario_graph scenario_heap 1 = (Some AssertionError, scenario_heap)
   \<and> assign_all_scores scenario_graph scenario_heap = (Some AssertionError, scenario_heap)
   \<and> rating (games (snd (assign_all_scores scenario_graph scenario_heap)) 1) = None"
proof -
  have a: "assign_all_scores scenario_graph scenario_heap = (Some AssertionError, scenario_heap)"
    by (rule assign_all_scores_raises [of _ "(1, 0)" "[(2, 1)]"]) (simp add: scenario_graph_def)
  have b: "rating (games scenario_heap 1) = None"
    by (simp add: scenario_heap_def Game_init_def)
  have c: "user_max_price scenario_graph < price (games scenario_heap 1)"
    by (simp add: scenario_graph_def scenario_heap_def Game_init_def)
  show ?thesis
    using a b c by (simp add: compute_score_raises)
qed

text \<open>
  C2, at a failing input. Game A of the scenario costs 10, within the user's 50, so it is
  not disqualified. \<^verbatim>\<open>compute_score\<close> raises \<^verbatim>\<open>AssertionError\<close> and assigns no rating
  at all; past the assertion, the genre signal would raise \<^verbatim>\<open>TypeError\<close>.
\<close>

theorem affordable_game_scoring_raises:
  "price (games scenario_heap 0) \<le> user_max_price scenario_graph
   \<and> compute_score scenario_graph scenario_heap 0 = (Some AssertionError, scenario_heap)
   \<and> rating (games (snd (compute_score scenario_graph scenario_heap 0)) 0) = None
   \<and> genre_score (games scenario_heap 0) [''RPG''] = Inl TypeError"
proof -
  have b: "rating (games scenario_heap 0) = None"
    by (simp add: scenario_heap_def Game_init_def)
  have c: "price (games scenario_heap 0) \<le> user_max_price scenario_graph"
    by (simp add: scenario_graph_def scenario_heap_def Game_init_def)
  show ?thesis
    using b c by (simp add: compute_score_raises genre_score_raises)
qed

text \<open>
  Past the assertion on the weights the signals have no guard against a zero
  denominator: on the degenerate input each division would raise.
\<close>

lemma degenerate_signals_raise:
  "rating_price (games degenerate_heap 0) 0 0 = Inl ZeroDivisionError
   \<and> neighbour_score degenerate_graph degenerate_heap 0 = Inl ZeroDivisionError
   \<and> genre_score (games degenerate_heap 0) [] = Inl TypeError"
  by (simp add: genre_score_raises)
     (simp add: degenerate_graph_def rating_price_def neighbour_score_def py_truediv_def)

text \<open>
  C6, at a failing input. The degenerate input is a catalog of a single free game with
  ratio 0, no anchors and no preferred genres, so that the effective genre list is empty
  and the highest price is 0. The scoring pass does not complete on it: \<^verbatim>\<open>compute_score\<close>
  raises \<^verbatim>\<open>AssertionError\<close> at the assertion on the weights, and the rating of the game
  stays unassigned instead of being computed from signals of 0.0.
\<close>

theorem degenerate_scoring_raises:
  "nodes degenerate_graph = Some [(1, 0)]
   \<and> user_nodes degenerate_graph = Some []
   \<and> user_genres degenerate_graph degenerate_heap = Inr []
   \<and> max_price degenerate_graph degenerate_heap = Inr 0
   \<and> compute_score degenerate_graph degenerate_heap 0 = (Some AssertionError, degenerate_heap)
   \<and> assign_all_scores degenerate_graph degenerate_heap = (Some AssertionError, degenerate_heap)
   \<and> rating (games (snd (assign_all_scores degenerate_graph degenerate_heap)) 0) = None"
proof -
  have a: "assign_all_scores degenerate_graph degenerate_heap
             = (Some AssertionError, degenerate_heap)"
    by (rule assign_all_scores_raises [of _ "(1, 0)" "[]"]) (simp add: degenerate_graph_def)
  have b: "rating (games degenerate_heap 0) = None"
    by (simp add: degenerate_heap_def Game_init_def)
  show ?thesis
    using b by (simp add: a compute_score_raises)
       (simp add: degenerate_graph_def degenerate_heap_def user_genres_def max_price_def
          Game_init_def)
qed

section \<open>Properties of ranking\<close>

lemma precedes_mem: "precedes xs x y \<Longrightarrow> x \<in> set xs \<and> y \<in> set xs"
  by (induction xs) (auto split: if_splits)

lemma precedes_remove1:
  "distinct xs \<Longrightarrow> precedes (remove1 g xs) x y \<Longrightarrow> precedes xs x y"
proof (induction xs)
  case Nil
  then show ?case by simp
next
  case (Cons z zs)
  show ?case
  proof (cases "z = g")
    case True
    then have p: "precedes zs x y" using Cons.prems by simp
    then have "x \<in> set zs" "y \<in> set zs" using precedes_mem by fastforce+
    then show ?thesis using p Cons.prems(1) by auto
  next
    case False
    then show ?thesis using Cons by (auto split: if_splits dest: notin_set_remove1)
  qed
qed

lemma outranks_rated:
  assumes "rated h gs" "x \<in> set gs" "y \<in> set gs"
  shows "outranks h cand x y
    = (score h y < score h x \<or> (score h x = score h y \<and> precedes cand y x))"
proof -
  obtain rx where rx: "rating (games h x) = Some rx" using assms(1,2) by (auto simp: rated_def)
  obtain ry where ry: "rating (games h y) = Some ry" using assms(1,3) by (auto simp: rated_def)
  show ?thesis by (simp add: outranks_def score_def rx ry)
qed

lemma rating_of_rated:
  "rated h gs \<Longrightarrow> g \<in> set gs \<Longrightarrow> rating_of h g = Inr (score h g) \<and> 0 \<le> score h g"
  by (fastforce simp: rated_def rating_of_def score_def)

lemma hsg_loop_spec:
  assumes "distinct gs" "rated h gs"
  shows "\<exists>res. highest_scoring_game_loop h gs s acc = Inr res \<and>
     ((res = acc \<and> (\<forall>p\<in>set gs. score h p < s)) \<or>
      (\<exists>g. res = Some g \<and> g \<in> set gs \<and> s \<le> score h g \<and>
           (\<forall>p\<in>set gs. p \<noteq> g \<longrightarrow>
              score h p < score h g \<or> (score h p = score h g \<and> precedes gs p g))))"
  using assms
proof (induction gs arbitrary: s acc)
  case Nil
  then show ?case by simp
next
  case (Cons g0 rest)
  have r0: "rating_of h g0 = Inr (score h g0)"
    using rating_of_rated [OF Cons.prems(2), of g0] by simp
  have d: "distinct rest" "g0 \<notin> set rest" using Cons.prems(1) by auto
  have rr: "rated h rest" using Cons.prems(2) by (simp add: rated_def)
  show ?case
  proof (cases "s \<le> score h g0")
    case True
    from Cons.IH [OF d(1) rr, of "score h g0" "Some g0"]
    obtain res where res: "highest_scoring_game_loop h rest (score h g0) (Some g0) = Inr res"
      and alt: "(res = Some g0 \<and> (\<forall>p\<in>set rest. score h p < score h g0)) \<or>
        (\<exists>g. res = Some g \<and> g \<in> set rest \<and> score h g0 \<le> score h g \<and>
           (\<forall>p\<in>set rest. p \<noteq> g \<longrightarrow>
              score h p < score h g \<or> (score h p = score h g \<and> precedes rest p g)))"
      by blast
    have eq: "highest_scoring_game_loop h (g0 # rest) s acc = Inr res"
      using r0 True res by simp
    from alt show ?thesis
    proof
      assume "res = Some g0 \<and> (\<forall>p\<in>set rest. score h p < score h g0)"
      then show ?thesis using eq True by auto
    next
      assume "\<exists>g. res = Some g \<and> g \<in> set rest \<and> score h g0 \<le> score h g \<and>
           (\<forall>p\<in>set rest. p \<noteq> g \<longrightarrow>
              score h p < score h g \<or> (score h p = score h g \<and> precedes rest p g))"
      then obtain g where g: "res = Some g" "g \<in> set rest" "score h g0 \<le> score h g"
        "\<forall>p\<in>set rest. p \<noteq> g \<longrightarrow>
              score h p < score h g \<or> (score h p = score h g \<and> precedes rest p g)"
        by blast
      have "\<forall>p\<in>set (g0 # rest). p \<noteq> g \<longrightarrow>
              score h p < score h g \<or> (score h p = score h g \<and> precedes (g0 # rest) p g)"
        using g d by auto
      then show ?thesis using eq g True by auto
    qed
  next
    case False
    from Cons.IH [OF d(1) rr, of s acc]
    obtain res where res: "highest_scoring_game_loop h rest s acc = Inr res"
      and alt: "(res = acc \<and> (\<forall>p\<in>set rest. score h p < s)) \<or>
        (\<exists>g. res = Some g \<and> g \<in> set rest \<and> s \<le> score h g \<and>
           (\<forall>p\<in>set rest. p \<noteq> g \<longrightarrow>
              score h p < score h g \<or> (score h p = score h g \<and> precedes rest p g)))"
      by blast
    have eq: "highest_scoring_game_loop h (g0 # rest) s acc = Inr res"
      using r0 False res by simp
    from alt show ?thesis
    proof
      assume "res = acc \<and> (\<forall>p\<in>set rest. score h p < s)"
      then show ?thesis using eq False by auto
    next
      assume "\<exists>g. res = Some g \<and> g \<in> set rest \<and> s \<le> score h g \<and>
           (\<forall>p\<in>set rest. p \<noteq> g \<longrightarrow>
              score h p < score h g \<or> (score h p = score h g \<and> precedes rest p g))"
      then obtain g where g: "res = Some g" "g \<in> set rest" "s \<le> score h g"
        "\<forall>p\<in>set rest. p \<noteq> g \<longrightarrow>
              score h p < score h g \<or> (score h p = score h g \<and> precedes rest p g)"
        by blast
      have "\<forall>p\<in>set (g0 # rest). p \<noteq> g \<longrightarrow>
              score h p < score h g \<or> (score h p = score h g \<and> precedes (g0 # rest) p g)"
        using g d False by auto
      then show ?thesis using eq g by auto
    qed
  qed
qed

lemma highest_scoring_game_spec:
  assumes "distinct gs" "rated h gs" "gs \<noteq> []"
  shows "\<exists>g. highest_scoring_game h gs = Inr (Some g) \<and> g \<in> set gs \<and>
           (\<forall>p\<in>set gs. p \<noteq> g \<longrightarrow> outranks h gs g p)"
proof -
  from hsg_loop_spec [OF assms(1,2), of 0 None]
  obtain res where res: "highest_scoring_game_loop h gs 0 None = Inr res"
    and alt: "(res = None \<and> (\<forall>p\<in>set gs. score h p < 0)) \<or>
      (\<exists>g. res = Some g \<and> g \<in> set gs \<and> 0 \<le> score h g \<and>
           (\<forall>p\<in>set gs. p \<noteq> g \<longrightarrow>
              score h p < score h g \<or> (score h p = score h g \<and> precedes gs p g)))"
    by blast
  obtain x where x: "x \<in> set gs" using assms(3) by (cases gs) auto
  then have "0 \<le> score h x" using rating_of_rated [OF assms(2)] by blast
  then have "\<not> (\<forall>p\<in>set gs. score h p < 0)" using x by force
  with alt obtain g where g: "res = Some g" "g \<in> set gs"
    "\<forall>p\<in>set gs. p \<noteq> g \<longrightarrow>
              score h p < score h g \<or> (score h p = score h g \<and> precedes gs p g)"
    by blast
  have "\<forall>p\<in>set gs. p \<noteq> g \<longrightarrow> outranks h gs g p"
    using g outranks_rated [OF assms(2) g(2)] by auto
  then show ?thesis using res g by (auto simp: highest_scoring_game_def)
qed

lemma outranks_remove1:
  "distinct xs \<Longrightarrow> outranks h (remove1 g xs) x y \<Longrightarrow> outranks h xs x y"
  by (auto simp: outranks_def split: option.splits dest: precedes_remove1)

lemma top_games_loop_selects:
  assumes "distinct possible" "rated h possible" "k < length possible"
    and "int (length actual) + int k = totl"
  shows "\<exists>sel. top_games_loop h totl possible actual = Inr (actual @ sel) \<and> length sel = k
      \<and> distinct sel \<and> set sel \<subseteq> set possible \<and> sorted_wrt (outranks h possible) sel
      \<and> (\<forall>a\<in>set sel. \<forall>p\<in>set possible - set sel. outranks h possible a p)"
  using assms
proof (induction k arbitrary: possible actual)
  case 0
  then have "top_games_loop h totl possible actual = Inr actual"
    by (subst top_games_loop.simps) auto
  then show ?case by simp
next
  case (Suc k)
  have ne: "possible \<noteq> []" using Suc.prems(3) by auto
  obtain g where g: "highest_scoring_game h possible = Inr (Some g)" "g \<in> set possible"
    "\<forall>p\<in>set possible. p \<noteq> g \<longrightarrow> outranks h possible g p"
    using highest_scoring_game_spec [OF Suc.prems(1,2) ne] by blast
  let ?P = "remove1 g possible"
  have d': "distinct ?P" using Suc.prems(1) by simp
  have r': "rated h ?P" using Suc.prems(2) by (auto simp: rated_def dest: notin_set_remove1)
  have l': "k < length ?P" using Suc.prems(3) g(2) by (simp add: length_remove1)
  have t': "int (length (actual @ [g])) + int k = totl" using Suc.prems(4) by simp
  from Suc.IH [OF d' r' l' t']
  obtain sel where sel: "top_games_loop h totl ?P (actual @ [g]) = Inr ((actual @ [g]) @ sel)"
    "length sel = k" "distinct sel" "set sel \<subseteq> set ?P" "sorted_wrt (outranks h ?P) sel"
    "\<forall>a\<in>set sel. \<forall>p\<in>set ?P - set sel. outranks h ?P a p"
    by blast
  have setP: "set ?P = set possible - {g}" using Suc.prems(1) by simp
  have step: "top_games_loop h totl possible actual = Inr (actual @ (g # sel))"
    using Suc.prems(4) g(1) sel(1) by (subst top_games_loop.simps) auto
  have mono: "\<And>x y. outranks h ?P x y \<Longrightarrow> outranks h possible x y"
    using outranks_remove1 [OF Suc.prems(1)] by blast
  have s1: "sorted_wrt (outranks h possible) sel"
    using sel(5) mono by (auto intro: sorted_wrt_mono_rel)
  have s2: "\<forall>y\<in>set sel. outranks h possible g y"
    using g(3) sel(4) setP by auto
  have s3: "\<forall>a\<in>set (g # sel). \<forall>p\<in>set possible - set (g # sel). outranks h possible a p"
    using g(3) sel(6) setP mono by auto
  have "g \<notin> set sel" using sel(4) setP by auto
  then show ?case
    using step sel(2,3,4) setP s1 s2 s3 g(2) by (intro exI [of _ "g # sel"]) auto
qed

lemma sort_games_outer_sorted:
  assumes "\<forall>i. Suc i < length gs \<longrightarrow>
             (\<exists>r1 r2. rating (games h (gs ! i)) = Some r1
                \<and> rating (games h (gs ! Suc i)) = Some r2 \<and> r2 \<le> r1)"
    and "\<forall>i\<in>set idxs. Suc i < length gs"
  shows "sort_games_outer h idxs gs = Inr gs"
  using assms(2)
proof (induction idxs)
  case Nil
  then show ?case by simp
next
  case (Cons i idxs)
  then have "Suc i < length gs" by simp
  with assms(1) obtain r1 r2 where "rating (games h (gs ! i)) = Some r1"
    "rating (games h (gs ! Suc i)) = Some r2" "r2 \<le> r1" by blast
  then show ?case using Cons by (simp add: rating_of_def)
qed

lemma sort_games_sorted:
  assumes "sorted_wrt (outranks h cand) gs"
  shows "sort_games h gs = Inr gs"
proof -
  have "\<forall>i. Suc i < length gs \<longrightarrow>
             (\<exists>r1 r2. rating (games h (gs ! i)) = Some r1
                \<and> rating (games h (gs ! Suc i)) = Some r2 \<and> r2 \<le> r1)"
  proof (intro allI impI)
    fix i assume "Suc i < length gs"
    then have "outranks h cand (gs ! i) (gs ! Suc i)"
      using assms sorted_wrt_nth_less [of "outranks h cand" gs i "Suc i"] by simp
    then show "\<exists>r1 r2. rating (games h (gs ! i)) = Some r1
                \<and> rating (games h (gs ! Suc i)) = Some r2 \<and> r2 \<le> r1"
      by (auto simp: outranks_def split: option.splits)
  qed
  then show ?thesis
    unfolding sort_games_def by (rule sort_games_outer_sorted) auto
qed

lemma top_games_selects:
  assumes "set_order set_iter" and "nodes gr = Some nm"
    and "cand = set_iter (catalog_games h nm)"
    and "rated h cand" and "0 \<le> totl" and "totl < int (length cand)"
  shows "\<exists>res. top_games set_iter gr h totl = Inr res \<and> length res = nat totl
      \<and> distinct res \<and> set res \<subseteq> set cand \<and> sorted_wrt (outranks h cand) res
      \<and> (\<forall>a\<in>set res. \<forall>p\<in>set cand - set res. outranks h cand a p)"
proof -
  have d: "distinct cand" using assms(1,3) by (simp add: set_order_def)
  have k: "nat totl < length cand" using assms(5,6) by linarith
  have t: "int (length ([] :: gref list)) + int (nat totl) = totl" using assms(5) by simp
  from top_games_loop_selects [OF d assms(4) k t]
  obtain sel where sel: "top_games_loop h totl cand [] = Inr sel" "length sel = nat totl"
    "distinct sel" "set sel \<subseteq> set cand" "sorted_wrt (outranks h cand) sel"
    "\<forall>a\<in>set sel. \<forall>p\<in>set cand - set sel. outranks h cand a p"
    by auto
  have "top_games set_iter gr h totl = Inr sel"
    using assms(2) sel(1) sort_games_sorted [OF sel(5)]
    by (simp add: top_games_def assms(3) [symmetric])
  then show ?thesis using sel by blast
qed

lemma top_games_loop_exhausts:
  assumes "distinct possible" "rated h possible"
    and "totl < int (length actual) \<or> int (length actual) + int (length possible) \<le> totl"
  shows "top_games_loop h totl possible actual = Inl KeyError"
  using assms
proof (induction "length possible" arbitrary: possible actual)
  case 0
  then have "possible = []" by simp
  then show ?case
    by (subst top_games_loop.simps) (simp add: highest_scoring_game_def)
next
  case (Suc k)
  then have ne: "possible \<noteq> []" by auto
  obtain g where g: "highest_scoring_game h possible = Inr (Some g)" "g \<in> set possible"
    using highest_scoring_game_spec [OF Suc.prems(1,2) ne] by blast
  let ?P = "remove1 g possible"
  have l: "k = length ?P" using Suc.hyps(2) g(2) by (simp add: length_remove1)
  have d': "distinct ?P" using Suc.prems(1) by simp
  have r': "rated h ?P" using Suc.prems(2) by (auto simp: rated_def dest: notin_set_remove1)
  have c': "totl < int (length (actual @ [g]))
              \<or> int (length (actual @ [g])) + int (length ?P) \<le> totl"
    using Suc.prems(3) Suc.hyps(2) l by auto
  have "top_games_loop h totl ?P (actual @ [g]) = Inl KeyError"
    by (rule Suc.hyps(1) [OF l d' r' c'])
  moreover have "int (length actual) \<noteq> totl"
    using Suc.prems(3) Suc.hyps(2) by auto
  ultimately show ?case
    using g(1) by (subst top_games_loop.simps) simp
qed

lemma top_games_exhausts:
  assumes "set_order set_iter" and "nodes gr = Some nm"
    and "rated h (set_iter (catalog_games h nm))"
    and "totl < 0 \<or> int (length (set_iter (catalog_games h nm))) \<le> totl"
  shows "top_games set_iter gr h totl = Inl KeyError"
proof -
  have d: "distinct (set_iter (catalog_games h nm))"
    using assms(1) by (simp add: set_order_def)
  have "top_games_loop h totl (set_iter (catalog_games h nm)) [] = Inl KeyError"
    using assms(4) by (intro top_games_loop_exhausts [OF d assms(3)]) simp
  then show ?thesis using assms(2) by (simp add: top_games_def)
qed

lemma ranked_candidates: "catalog_games ranked_heap [(1, 0), (2, 1), (3, 2)] = [0, 1, 2]"
  by (simp add: catalog_games_def ranked_heap_def)

lemma rated_list_all:
  "rated h gs = list_all (\<lambda>g. case rating (games h g) of None \<Rightarrow> False | Some r \<Rightarrow> 0 \<le> r) gs"
  by (auto simp: rated_def list_all_iff split: option.splits)

lemma ranked_rated: "rated ranked_heap [0, 1, 2]"
  by (simp add: rated_list_all ranked_heap_def Game_init_def)

lemma set_order_remdups: "set_order remdups"
  by (simp add: set_order_def)

lemma ranked_top_2: "top_games remdups ranked_graph ranked_heap 2 = Inr [1, 0]"
  by (simp add: top_games_def ranked_graph_def catalog_games_def highest_scoring_game_def
      rating_of_def sort_games_def ranked_heap_def Game_init_def)

text \<open>
  With a pool of neighbours that is not empty, the loop of \<^verbatim>\<open>highest_scoring_games\<close>
  runs until the pool is exhausted whatever \<^verbatim>\<open>total_games\<close> is: asked for one game it
  returns both neighbours, and asked for as many games as the pool holds it raises
  \<^verbatim>\<open>KeyError\<close>.
\<close>

lemma highest_scoring_games_ignores_total:
  "highest_scoring_games remdups linked_graph linked_heap 1 = Inr [1, 2]
   \<and> highest_scoring_games remdups linked_graph linked_heap 2 = Inl KeyError"
  by (simp add: highest_scoring_games_def linked_graph_def ranked_graph_def neighbour_games_def
      linked_heap_def ranked_heap_def highest_scoring_game_def rating_of_def sort_games_def
      Game_init_def)

text \<open>
  C3 as stated fails. The candidates iterate in the order 0, 1, 2 with ratings 0.5, 0.5
  and 0.25. For \<open>n = 2\<close> the tied games come out as 1, 0: the one encountered last is
  first. For \<open>n = 3\<close>, the number of candidates, \<^verbatim>\<open>top_games\<close> raises \<^verbatim>\<open>KeyError\<close>
  instead of returning three games.
\<close>

theorem top_games_ties_and_exhaustion_counterexample:
  "catalog_games ranked_heap [(1, 0), (2, 1), (3, 2)] = [0, 1, 2]
   \<and> rating (games ranked_heap 0) = rating (games ranked_heap 1)
   \<and> top_games remdups ranked_graph ranked_heap 2 = Inr [1, 0]
   \<and> top_games remdups ranked_graph ranked_heap 3 = Inl KeyError"
proof -
  have "top_games remdups ranked_graph ranked_heap 3 = Inl KeyError"
    by (simp add: top_games_def ranked_graph_def catalog_games_def highest_scoring_game_def
        rating_of_def ranked_heap_def Game_init_def)
  moreover have "rating (games ranked_heap 0) = rating (games ranked_heap 1)"
    by (simp add: ranked_heap_def Game_init_def)
  ultimately show ?thesis
    using ranked_candidates ranked_top_2 by simp
qed

text \<open>
  C3, amended. Let the candidates of \<^verbatim>\<open>top_games\<close> (the games of the graph, in the
  iteration order of the set) all have a rating of at least 0, and let
  \<open>0 \<le> n < number of candidates\<close>. Then \<^verbatim>\<open>top_games\<close> returns exactly \<open>n\<close> distinct
  candidates; they are in non-increasing order of rating, and of two with equal ratings
  the one encountered later in the candidate collection comes first; every returned game
  outranks in the same sense every candidate that is not returned.
\<close>

theorem top_games_ranking:
  assumes "set_order set_iter" and "nodes gr = Some nm"
    and "cand = set_iter (catalog_games h nm)"
    and "rated h cand" and "0 \<le> totl" and "totl < int (length cand)"
  shows "\<exists>res. top_games set_iter gr h totl = Inr res \<and> length res = nat totl
      \<and> distinct res \<and> set res \<subseteq> set cand \<and> sorted_wrt (outranks h cand) res
      \<and> (\<forall>a\<in>set res. \<forall>p\<in>set cand - set res. outranks h cand a p)"
  using assms by (rule top_games_selects)

theorem top_games_ranking_witness:
  "set_order remdups \<and> nodes ranked_graph = Some [(1, 0), (2, 1), (3, 2)]
   \<and> [0, 1, 2] = remdups (catalog_games ranked_heap [(1, 0), (2, 1), (3, 2)])
   \<and> rated ranked_heap [0, 1, 2] \<and> (0 :: int) \<le> 2 \<and> (2 :: int) < int (length [0 :: nat, 1, 2])
   \<and> (\<exists>res. top_games remdups ranked_graph ranked_heap 2 = Inr res \<and> length res = nat 2
      \<and> distinct res \<and> set res \<subseteq> set [0, 1, 2] \<and> sorted_wrt (outranks ranked_heap [0, 1, 2]) res
      \<and> (\<forall>a\<in>set res. \<forall>p\<in>set [0, 1, 2] - set res. outranks ranked_heap [0, 1, 2] a p))"
proof -
  have 2: "nodes ranked_graph = Some [(1, 0), (2, 1), (3, 2)]"
    by (simp add: ranked_graph_def)
  have 3: "[0, 1, 2] = remdups (catalog_games ranked_heap [(1, 0), (2, 1), (3, 2)])"
    by (simp add: catalog_games_def ranked_heap_def)
  have 5: "(0 :: int) \<le> 2" and 6: "(2 :: int) < int (length [0 :: nat, 1, 2])"
    by simp_all
  note r = top_games_ranking [OF set_order_remdups 2 3 ranked_rated 5 6]
  show ?thesis
    using set_order_remdups 2 3 ranked_rated 5 6 r by blast
qed

text \<open>
  When both mappings exist and the pool of neighbours of the anchors is empty (in
  particular when there is no anchor), \<^verbatim>\<open>highest_scoring_games\<close> returns what
  \<^verbatim>\<open>top_games\<close> returns, exception or not.
\<close>

lemma highest_scoring_games_delegates:
  assumes "set_order set_iter" and "user_nodes gr = Some um"
    and "um = [] \<or> neighbour_games h um = []"
  shows "highest_scoring_games set_iter gr h n = top_games set_iter gr h n"
proof -
  have e: "set_iter [] = []"
    using assms(1) by (metis set_order_def set_empty)
  have p: "neighbour_games h um = []"
    using assms(3) by (auto simp: neighbour_games_def)
  show ?thesis
    using assms(2) e p by (simp add: highest_scoring_games_def)
qed

text \<open>
  The fallback ranks the catalog only when it is asked for fewer games than the catalog
  holds; asked for as many or more, it raises \<^verbatim>\<open>KeyError\<close>, whatever the iteration order
  of the set.
\<close>

lemma highest_scoring_games_fallback_ranks:
  assumes "set_order set_iter" and "user_nodes gr = Some um"
    and "um = [] \<or> neighbour_games h um = []" and "nodes gr = Some nm"
    and "rated h (set_iter (catalog_games h nm))" and "0 \<le> n"
    and "n < int (length (set_iter (catalog_games h nm)))"
  shows "\<exists>res. highest_scoring_games set_iter gr h n = Inr res \<and> length res = nat n
           \<and> distinct res \<and> set res \<subseteq> set (catalog_games h nm)
           \<and> sorted_wrt (outranks h (set_iter (catalog_games h nm))) res"
proof -
  have s: "set (set_iter (catalog_games h nm)) = set (catalog_games h nm)"
    using assms(1) by (simp add: set_order_def)
  show ?thesis
    using highest_scoring_games_delegates [OF assms(1,2,3), of n] s
      top_games_selects [OF assms(1,4) refl assms(5,6,7)]
    by auto
qed

lemma highest_scoring_games_fallback_exhausts:
  assumes "set_order set_iter" and "user_nodes gr = Some um"
    and "um = [] \<or> neighbour_games h um = []" and "nodes gr = Some nm"
    and "rated h (set_iter (catalog_games h nm))"
    and "int (length (set_iter (catalog_games h nm))) \<le> n"
  shows "highest_scoring_games set_iter gr h n = Inl KeyError"
  using highest_scoring_games_delegates [OF assms(1,2,3), of n]
    top_games_exhausts [OF assms(1,4,5), of n] assms(6)
  by simp

text \<open>
  C7, at a failing input. The graph of the three rated games has no anchor, so the pool
  of neighbours is empty and \<^verbatim>\<open>highest_scoring_games\<close> falls back to \<^verbatim>\<open>top_games\<close>.
  Asked for five games (what \<^verbatim>\<open>runner\<close> asks for), or for three, it raises \<^verbatim>\<open>KeyError\<close>
  instead of returning the ranking of the three games of the catalog.
\<close>

theorem highest_scoring_games_fallback_KeyError:
  "user_nodes ranked_graph = Some []
   \<and> neighbour_games ranked_heap [] = []
   \<and> nodes ranked_graph = Some [(1, 0), (2, 1), (3, 2)]
   \<and> rating (games ranked_heap 0) = Some (1 / 2)
   \<and> rating (games ranked_heap 1) = Some (1 / 2)
   \<and> rating (games ranked_heap 2) = Some (1 / 4)
   \<and> highest_scoring_games remdups ranked_graph ranked_heap 5 = Inl KeyError
   \<and> highest_scoring_games remdups ranked_graph ranked_heap 3 = Inl KeyError"
proof -
  have 2: "user_nodes ranked_graph = Some []"
    and 4: "nodes ranked_graph = Some [(1, 0), (2, 1), (3, 2)]"
    by (simp_all add: ranked_graph_def)
  have 3: "[] = [] \<or> neighbour_games ranked_heap [] = []"
    by simp
  have 5: "rated ranked_heap (remdups (catalog_games ranked_heap [(1, 0), (2, 1), (3, 2)]))"
    by (simp add: rated_list_all catalog_games_def ranked_heap_def Game_init_def)
  have l: "length (remdups (catalog_games ranked_heap [(1, 0), (2, 1), (3, 2)])) = 3"
    by (simp add: catalog_games_def ranked_heap_def)
  have k5: "highest_scoring_games remdups ranked_graph ranked_heap 5 = Inl KeyError"
    using l by (intro highest_scoring_games_fallback_exhausts [OF set_order_remdups 2 3 4 5]) simp
  have k3: "highest_scoring_games remdups ranked_graph ranked_heap 3 = Inl KeyError"
    using l by (intro highest_scoring_games_fallback_exhausts [OF set_order_remdups 2 3 4 5]) simp
  have r: "rating (games ranked_heap 0) = Some (1 / 2)"
    "rating (games ranked_heap 1) = Some (1 / 2)"
    "rating (games ranked_heap 2) = Some (1 / 4)"
    by (simp_all add: ranked_heap_def Game_init_def)
  have n: "neighbour_games ranked_heap [] = []"
    by (simp add: neighbour_games_def)
  show ?thesis
    using 2 4 r n k5 k3 by blast
qed

end
